theory Spec2Isabelle
  imports Main
begin

section \<open>The token model (lex.go, lines 12-60)\<close>

text \<open>
  \<^verbatim>\<open>TokenType\<close> is an \<^verbatim>\<open>int\<close> enumeration numbered by \<^verbatim>\<open>iota\<close>, so \<^verbatim>\<open>Error\<close> is 0,
  the zero value of the type. The constructors keep the order of the source; the kinds
  whose names are constants of HOL carry a prime (\<open>Left'\<close>, \<open>Right'\<close>, \<open>Union'\<close>,
  \<open>All'\<close>, \<open>True'\<close>, \<open>False'\<close>, \<open>Not'\<close>).
\<close>

datatype TokenType =
    Error | EOF | Star | Sep | Dot | Op | Paren | Literal | Number | String | DblString
  | Select | Distinct | From | Where | Group | Order | By | Having | Limit | Join
  | Left' | Right' | Inner | Outer | On | As | Union' | All' | And | Or | Between
  | True' | False' | Null | Is | Not' | Like | Exists

text \<open>
  \<^verbatim>\<open>type Token struct { Type TokenType; Literal string }\<close>. The source builds tokens
  positionally (\<^verbatim>\<open>Token{t, l.cache()}\<close>), and so does the constructor. The field
  \<^verbatim>\<open>Literal\<close> is the selector \<open>Literal_of\<close>, since \<open>Literal\<close> is a token kind here.
  A Go string is a sequence of bytes, and so is a \<^typ>\<open>string\<close>.
\<close>

datatype Token = Token (Type: TokenType) (Literal_of: string)

text \<open>The zero value of \<^verbatim>\<open>Token\<close>: kind 0 and the empty string.\<close>

definition zero_Token :: Token where
  "zero_Token = Token Error []"

section \<open>Library functions the scanner calls\<close>

subsection \<open>\<^verbatim>\<open>utf8.DecodeRuneInString\<close>\<close>

text \<open>
  A rune is an \<^verbatim>\<open>int32\<close>; no operation of the scanner can overflow one, so runes are
  \<^typ>\<open>int\<close>. \<open>rune c\<close> is the rune literal of an ASCII character.
\<close>

definition rune :: "char \<Rightarrow> int" where
  "rune c = int (of_char c)"

definition RuneError :: int where
  "RuneError = 0xFFFD"

text \<open>
  The decoder of the Go library: the empty string gives \<open>(RuneError, 0)\<close>, an invalid
  or truncated encoding \<open>(RuneError, 1)\<close>, anything else the code point and the number
  of bytes of its encoding. The first byte chooses the length and the range allowed for
  the second byte (the library's tables \<^verbatim>\<open>first\<close> and \<^verbatim>\<open>acceptRanges\<close>); the masks
  \<^verbatim>\<open>& 0x1F\<close>, \<^verbatim>\<open>& 0x0F\<close>, \<^verbatim>\<open>& 0x07\<close>, \<^verbatim>\<open>& 0x3F\<close> are the remainders below and the
  shifts are the multiplications.
\<close>

fun DecodeRuneInString :: "string \<Rightarrow> int \<times> int" where
  "DecodeRuneInString [] = (RuneError, 0)"
| "DecodeRuneInString (c0 # cs) =
    (let s0 = (of_char c0 :: nat) in
     if s0 < 0x80 then (int s0, 1)
     else if s0 < 0xC2 \<or> 0xF4 < s0 then (RuneError, 1)
     else
       let sz = (if s0 < 0xE0 then 2 else if s0 < 0xF0 then 3 else 4 :: nat);
           lo = (if s0 = 0xE0 then 0xA0 else if s0 = 0xF0 then 0x90 else 0x80 :: nat);
           hi = (if s0 = 0xED then 0x9F else if s0 = 0xF4 then 0x8F else 0xBF :: nat)
       in
         if length (c0 # cs) < sz then (RuneError, 1)
         else
           let s1 = (of_char (cs ! 0) :: nat) in
           if s1 < lo \<or> hi < s1 then (RuneError, 1)
           else if sz \<le> 2 then (int ((s0 mod 32) * 64 + s1 mod 64), 2)
           else
             let s2 = (of_char (cs ! 1) :: nat) in
             if s2 < 0x80 \<or> 0xBF < s2 then (RuneError, 1)
             else if sz \<le> 3
               then (int ((s0 mod 16) * 4096 + (s1 mod 64) * 64 + s2 mod 64), 3)
             else
               let s3 = (of_char (cs ! 2) :: nat) in
               if s3 < 0x80 \<or> 0xBF < s3 then (RuneError, 1)
               else (int ((s0 mod 8) * 262144 + (s1 mod 64) * 4096
                            + (s2 mod 64) * 64 + s3 mod 64), 4))"

subsection \<open>\<^verbatim>\<open>strings.ToUpper\<close>\<close>

text \<open>
  \<^verbatim>\<open>ToUpper\<close> on the bytes \<open>a\<close> to \<open>z\<close>. The keyword state is the only caller and
  passes a run of ASCII letters (lemma \<open>keyword_run_letters\<close> below); on other bytes
  the library maps whole code points, which this definition does not follow: it
  leaves them as they are.
\<close>

definition upper_byte :: "char \<Rightarrow> char" where
  "upper_byte c =
    (if 97 \<le> (of_char c :: nat) \<and> (of_char c :: nat) \<le> 122
     then char_of ((of_char c :: nat) - 32) else c)"

definition ToUpper :: "string \<Rightarrow> string" where
  "ToUpper s = map upper_byte s"

subsection \<open>\<^verbatim>\<open>fmt.Sprintf\<close> on string operands\<close>

text \<open>
  What \<^verbatim>\<open>Sprintf\<close> prints when every operand is a string and every \<open>%\<close> of the
  format starts one of the directives \<open>%s\<close>, \<open>%v\<close>, \<open>%%\<close> (\<open>plain_format\<close>):
  text is copied, \<open>%s\<close> and \<open>%v\<close> print the next operand, or \<open>%!s(MISSING)\<close> when none
  is left, \<open>%%\<close> prints a percent sign, and the operands that no directive used are
  reported at the end as \<open>%!(EXTRA string=..., string=...)\<close>. Flags, widths,
  precisions, argument indexes and the other verbs are not modelled: on a format that
  is not a \<open>plain_format\<close> the function copies the percent sign, which is not what the
  library prints, and no statement below is about such a format.
\<close>

fun plain_format :: "string \<Rightarrow> bool" where
  "plain_format [] = True"
| "plain_format [c] = (c \<noteq> CHR ''%'')"
| "plain_format (c # v # fs) =
    (if c = CHR ''%''
     then (v = CHR ''s'' \<or> v = CHR ''v'' \<or> v = CHR ''%'') \<and> plain_format fs
     else plain_format (v # fs))"

fun extra_operands :: "string list \<Rightarrow> string" where
  "extra_operands [] = []"
| "extra_operands [x] = ''string='' @ x"
| "extra_operands (x # y # a) = ''string='' @ x @ '', '' @ extra_operands (y # a)"

fun Sprintf :: "string \<Rightarrow> string list \<Rightarrow> string" where
  "Sprintf [] a = (if a = [] then [] else ''%!(EXTRA '' @ extra_operands a @ '')'')"
| "Sprintf [c] a = c # Sprintf [] a"
| "Sprintf (c # v # fs) a =
    (if c = CHR ''%'' \<and> v = CHR ''%'' then CHR ''%'' # Sprintf fs a
     else if c = CHR ''%'' \<and> (v = CHR ''s'' \<or> v = CHR ''v'') then
       (case a of
          [] \<Rightarrow> ''%!'' @ [v] @ ''(MISSING)'' @ Sprintf fs []
        | x # a' \<Rightarrow> x @ Sprintf fs a')
     else c # Sprintf (v # fs) a)"

section \<open>The scan cursor and its primitives (lex.go, lines 72-167)\<close>

text \<open>
  \<^verbatim>\<open>type Lexer struct { name, input string; start, pos int; tokens chan Token }\<close>.
  The offsets are Go \<^verbatim>\<open>int\<close>s, kept as \<^typ>\<open>int\<close> (they are sums of at most
  \<open>len(input)\<close> widths, so they cannot overflow).

  The channel is unbuffered and has one sender, the driver, and one receiver,
  \<^verbatim>\<open>Tokenize\<close>. The field \<open>tokens\<close> holds the tokens the driver has sent and the
  caller has not received yet, oldest first: a send appends, a receive takes the head.
  In the Go program the driver is suspended inside each send until the receive; here
  the state function runs on to its return. Every state function returns (they are
  total functions below), so the caller sees the same tokens in the same order.
\<close>

record Lexer =
  name :: string
  input :: string
  start :: int
  pos :: int
  tokens :: "Token list"

text \<open>
  The slice \<^verbatim>\<open>s[i:j]\<close>. Go panics unless \<open>0 \<le> i \<le> j \<le> len(s)\<close>; the scanner
  only slices at its two offsets, and \<open>cursor_ok\<close> below, which every primitive keeps,
  says that they satisfy this. \<^verbatim>\<open>s[i:]\<close> is \<open>slice s i (len s)\<close>.
\<close>

definition slice :: "string \<Rightarrow> int \<Rightarrow> int \<Rightarrow> string" where
  "slice s i j = take (nat (j - i)) (drop (nat i) s)"

definition len :: "string \<Rightarrow> int" where
  "len s = int (length s)"

definition send :: "Token \<Rightarrow> Lexer \<Rightarrow> Lexer" where
  "send tok l = l\<lparr>tokens := tokens l @ [tok]\<rparr>"

definition cache :: "Lexer \<Rightarrow> string" where
  "cache l = slice (input l) (start l) (pos l)"

definition emit :: "TokenType \<Rightarrow> Lexer \<Rightarrow> Lexer" where
  "emit k l = (send (Token k (cache l)) l)\<lparr>start := pos l\<rparr>"

definition ignore :: "Lexer \<Rightarrow> Lexer" where
  "ignore l = l\<lparr>start := pos l\<rparr>"

text \<open>\<^verbatim>\<open>l.input[l.pos:]\<close>, the text still to scan.\<close>

definition rest :: "Lexer \<Rightarrow> string" where
  "rest l = slice (input l) (pos l) (len (input l))"

text \<open>\<^verbatim>\<open>next\<close> returns the rune and moves \<open>pos\<close>; the pair is (rune, new cursor).\<close>

definition next' :: "Lexer \<Rightarrow> int \<times> Lexer" where
  "next' l =
    (let (r, width) = DecodeRuneInString (rest l)
     in (r, l\<lparr>pos := pos l + width\<rparr>))"

definition backup :: "Lexer \<Rightarrow> Lexer" where
  "backup l = l\<lparr>pos := start l\<rparr>"

definition peek :: "Lexer \<Rightarrow> int" where
  "peek l = fst (DecodeRuneInString (rest l))"

definition errorf :: "Lexer \<Rightarrow> string \<Rightarrow> string \<Rightarrow> Lexer" where
  "errorf l format args =
    (let prefixed = Sprintf ''ERROR: %s: %s'' [name l, format]
     in send (Token Error (Sprintf prefixed [args])) l)"

section \<open>The states (lex.go, lines 169-313)\<close>

text \<open>
  \<^verbatim>\<open>type State func(*Lexer) State\<close>: a state is one of the five functions below, and
  \<^verbatim>\<open>nil\<close> ends the scan. A state function returns the next state (\<open>None\<close> for
  \<^verbatim>\<open>nil\<close>) and the cursor as it left it.
\<close>

datatype State = ExpectAny | ExpectKeyword | ExpectString | ExpectLiteral | ExpectNumber

definition is_letter :: "int \<Rightarrow> bool" where
  "is_letter r =
    (rune CHR ''a'' \<le> r \<and> r \<le> rune CHR ''z'' \<or> rune CHR ''A'' \<le> r \<and> r \<le> rune CHR ''Z'')"

definition is_digit :: "int \<Rightarrow> bool" where
  "is_digit r = (rune CHR ''0'' \<le> r \<and> r \<le> rune CHR ''9'')"

text \<open>
  A decoded rune takes at least one byte and never more than the string has, and only
  the empty string decodes with width 0.
\<close>

lemma DecodeRuneInString_width:
  "s \<noteq> [] \<Longrightarrow> 1 \<le> snd (DecodeRuneInString s) \<and> snd (DecodeRuneInString s) \<le> len s"
proof (cases s)
  case Nil
  assume "s \<noteq> []"
  with Nil show ?thesis by simp
next
  case (Cons c0 cs)
  show ?thesis
  proof (cases cs)
    case Nil
    with Cons show ?thesis by (simp add: Let_def len_def)
  next
    case c1: (Cons c1 cs1)
    show ?thesis
    proof (cases cs1)
      case Nil
      with Cons c1 show ?thesis by (simp add: Let_def len_def)
    next
      case c2: (Cons c2 cs2)
      show ?thesis
      proof (cases cs2)
        case Nil
        with Cons c1 c2 show ?thesis by (simp add: Let_def len_def)
      next
        case c3: (Cons c3 cs3)
        with Cons c1 c2 show ?thesis by (simp add: Let_def len_def)
      qed
    qed
  qed
qed

lemma rest_nonempty:
  "rest l \<noteq> [] \<Longrightarrow> pos l < len (input l)"
  by (auto simp: rest_def slice_def len_def)

lemma rest_length:
  "0 \<le> pos l \<Longrightarrow> pos l \<le> len (input l) \<Longrightarrow> len (rest l) = len (input l) - pos l"
  by (auto simp: rest_def slice_def len_def)

lemma RuneError_no_class:
  "\<not> is_letter RuneError" "\<not> is_digit RuneError"
  by (simp_all add: is_letter_def is_digit_def RuneError_def rune_def)

lemma peek_class_nonempty:
  "is_letter (peek l) \<or> is_digit (peek l) \<Longrightarrow> rest l \<noteq> []"
  using RuneError_no_class by (auto simp: peek_def)

lemma fst_next:
  "fst (next' l) = peek l"
  by (simp add: next'_def peek_def split_def Let_def)

lemma snd_next:
  "snd (next' l) = l\<lparr>pos := pos l + snd (DecodeRuneInString (rest l))\<rparr>"
  by (simp add: next'_def split_def Let_def)

lemma next_advances:
  "rest l \<noteq> [] \<Longrightarrow> pos l < pos (snd (next' l)) \<and> input (snd (next' l)) = input l"
  using DecodeRuneInString_width [of "rest l"] by (simp add: snd_next)

lemma next_measure:
  "rest l \<noteq> [] \<Longrightarrow>
     (snd (next' l), l) \<in> measure (\<lambda>l. nat (len (input l) - pos l))"
  using next_advances [of l] rest_nonempty [of l] by simp

text \<open>
  The loop of \<^verbatim>\<open>expectKeyword\<close>:
  \<^verbatim>\<open>for r := l.peek(); 'a' <= r && r <= 'z' || 'A' <= r && r <= 'Z'; r = l.peek() { l.next() }\<close>
\<close>

function expectKeyword_loop :: "Lexer \<Rightarrow> Lexer" where
  "expectKeyword_loop l =
    (if is_letter (peek l) then expectKeyword_loop (snd (next' l)) else l)"
  by pat_completeness auto
termination
proof (relation "measure (\<lambda>l. nat (len (input l) - pos l))")
  show "wf (measure (\<lambda>l. nat (len (input l) - pos l)))"
    by simp
next
  fix l :: Lexer
  assume "is_letter (peek l)"
  then have "rest l \<noteq> []"
    by (simp add: peek_class_nonempty)
  then show "(snd (next' l), l) \<in> measure (\<lambda>l. nat (len (input l) - pos l))"
    by (rule next_measure)
qed

text \<open>
  The switch of \<^verbatim>\<open>expectKeyword\<close> on \<^verbatim>\<open>strings.ToUpper(l.cache())\<close>: the kind emitted
  for each of the eighteen words, \<open>None\<close> for the default branch.
\<close>

definition keyword_switch :: "string \<Rightarrow> TokenType option" where
  "keyword_switch w =
    (if w = ''SELECT'' then Some Select
     else if w = ''DISTINCT'' then Some Distinct
     else if w = ''FROM'' then Some From
     else if w = ''WHERE'' then Some Where
     else if w = ''GROUP'' then Some Group
     else if w = ''ORDER'' then Some Order
     else if w = ''BY'' then Some By
     else if w = ''HAVING'' then Some Having
     else if w = ''LIMIT'' then Some Limit
     else if w = ''JOIN'' then Some Join
     else if w = ''LEFT'' then Some Left'
     else if w = ''RIGHT'' then Some Right'
     else if w = ''INNER'' then Some Inner
     else if w = ''OUTER'' then Some Outer
     else if w = ''ON'' then Some On
     else if w = ''AS'' then Some As
     else if w = ''UNION'' then Some Union'
     else if w = ''ALL'' then Some All'
     else None)"

definition expectKeyword :: "Lexer \<Rightarrow> State option \<times> Lexer" where
  "expectKeyword l0 =
    (let l = expectKeyword_loop l0 in
     case keyword_switch (ToUpper (cache l)) of
       Some k \<Rightarrow> (Some ExpectAny, emit k l)
     | None \<Rightarrow> (None, errorf l (''keyword doesn'' @ [CHR 0x27] @ ''t exsit: %s'') (cache l)))"

definition expectString :: "Lexer \<Rightarrow> State option \<times> Lexer" where
  "expectString l0 =
    (let (r, l) = next' l0 in
     if r = rune (CHR 0x27) then (Some ExpectAny, emit String l)
     else (Some ExpectString, l))"

text \<open>
  Modelled from the spec: the identifier \<^verbatim>\<open>t\<close> that \<^verbatim>\<open>expectLiteral\<close> uses as the
  kind of its token (\<^verbatim>\<open>Token{t, l.cache()}\<close>, lex.go line 293) is declared nowhere
  in the package (the only \<^verbatim>\<open>t\<close> of the sources is a local variable of other
  functions). The specification reads it as the kind \<^verbatim>\<open>Literal\<close>: the backtick state
  is to "emit a Literal-kind token through the standard emission primitive".
\<close>

definition t :: TokenType where
  "t = Literal"

definition expectLiteral :: "Lexer \<Rightarrow> State option \<times> Lexer" where
  "expectLiteral l0 =
    (let (r, l) = next' l0 in
     if r = rune CHR ''`''
     then (Some ExpectAny, (send (Token t (cache l)) l)\<lparr>start := pos l\<rparr>)
     else (Some ExpectLiteral, l))"

text \<open>
  The two loops of \<^verbatim>\<open>expectNumber\<close>:
  \<^verbatim>\<open>for '0' <= l.peek() && l.peek() <= '9' { l.next() }\<close>
\<close>

function expectNumber_loop :: "Lexer \<Rightarrow> Lexer" where
  "expectNumber_loop l =
    (if is_digit (peek l) then expectNumber_loop (snd (next' l)) else l)"
  by pat_completeness auto
termination
proof (relation "measure (\<lambda>l. nat (len (input l) - pos l))")
  show "wf (measure (\<lambda>l. nat (len (input l) - pos l)))"
    by simp
next
  fix l :: Lexer
  assume "is_digit (peek l)"
  then have "rest l \<noteq> []"
    by (simp add: peek_class_nonempty)
  then show "(snd (next' l), l) \<in> measure (\<lambda>l. nat (len (input l) - pos l))"
    by (rule next_measure)
qed

definition expectNumber :: "Lexer \<Rightarrow> State option \<times> Lexer" where
  "expectNumber l0 =
    (let l1 = expectNumber_loop l0;
         l2 = (if peek l1 = rune CHR ''.'' then snd (next' l1) else l1);
         l3 = expectNumber_loop l2
     in (Some ExpectAny, emit Number l3))"

text \<open>
  The initial state. The branches are those of the \<^verbatim>\<open>switch\<close>, in its order. The
  comma branch is the one that calls \<^verbatim>\<open>expectAny(l)\<close> itself instead of returning it
  to the driver, which makes the function recursive.
\<close>

function expectAny :: "Lexer \<Rightarrow> State option \<times> Lexer" where
  "expectAny l0 =
    (if pos l0 \<ge> len (input l0) then (None, emit EOF l0)
     else
       let r = fst (next' l0); l = snd (next' l0) in
       if r = rune (CHR 0x27) then (Some ExpectString, l)
       else if r = rune CHR ''`'' then (Some ExpectLiteral, l)
       else if r = rune CHR '' '' \<or> r = rune (CHR 0x0A) then (Some ExpectAny, ignore l)
       else if r = rune CHR ''*'' then (Some ExpectAny, emit Star l)
       else if r = rune CHR '','' then expectAny (emit Sep l)
       else if r = rune CHR ''='' \<or> r = rune CHR ''+'' \<or> r = rune CHR ''-'' \<or> r = rune CHR ''/''
         then (Some ExpectAny, emit Op l)
       else if r = rune CHR ''!'' then
         (Some ExpectAny,
          emit Op (if peek l \<noteq> rune CHR ''=''
                   then errorf l ''unsupported op: '' (cache l) else l))
       else if r = rune CHR ''>'' then
         (Some ExpectAny,
          emit Op (if peek l \<noteq> rune CHR ''='' \<and> peek l \<noteq> rune CHR '' ''
                   then errorf l ''unsupported op: '' (cache l) else l))
       else if r = rune CHR ''<'' then
         (Some ExpectAny,
          emit Op (if peek l \<noteq> rune CHR ''='' \<and> peek l \<noteq> rune CHR '' ''
                        \<and> peek l \<noteq> rune CHR ''>''
                   then errorf l ''unsupported op: '' (cache l) else l))
       else if is_digit r then (Some ExpectNumber, backup l)
       else if is_letter r then (Some ExpectKeyword, backup l)
       else (None, l))"
  by pat_completeness auto
termination
proof (relation "measure (\<lambda>l. nat (len (input l) - pos l))")
  show "wf (measure (\<lambda>l. nat (len (input l) - pos l)))"
    by simp
next
  fix l0 :: Lexer and r :: int and l :: Lexer
  assume r: "r = fst (next' l0)" and l: "l = snd (next' l0)" and comma: "r = rune CHR '',''"
  have "rest l0 \<noteq> []"
  proof
    assume "rest l0 = []"
    then have "fst (next' l0) = RuneError"
      by (simp add: fst_next peek_def)
    with r comma show False
      by (simp add: rune_def RuneError_def)
  qed
  then have "(snd (next' l0), l0) \<in> measure (\<lambda>l. nat (len (input l) - pos l))"
    by (rule next_measure)
  with l show "(emit Sep l, l0) \<in> measure (\<lambda>l. nat (len (input l) - pos l))"
    by (simp add: emit_def send_def)
qed

section \<open>The driver and the pull operation (lex.go, lines 80-98 and 173-178)\<close>

text \<open>The call \<^verbatim>\<open>state(l)\<close> through the function value.\<close>

fun run_state :: "State \<Rightarrow> Lexer \<Rightarrow> State option \<times> Lexer" where
  "run_state ExpectAny l = expectAny l"
| "run_state ExpectKeyword l = expectKeyword l"
| "run_state ExpectString l = expectString l"
| "run_state ExpectLiteral l = expectLiteral l"
| "run_state ExpectNumber l = expectNumber l"

text \<open>
  The loop of \<^verbatim>\<open>transform\<close>, \<^verbatim>\<open>for state := expectAny; state != nil; { state = state(l) }\<close>,
  from any value of \<open>state\<close>. The loop need not end, so the result is an option:
  \<open>Some l'\<close> when the loop is left (and the channel is closed) with the cursor \<open>l'\<close>,
  \<open>None\<close> when it runs forever.
\<close>

partial_function (option) transform_from :: "State option \<Rightarrow> Lexer \<Rightarrow> Lexer option" where
  "transform_from state l =
    (case state of
       None \<Rightarrow> Some l
     | Some f \<Rightarrow> transform_from (fst (run_state f l)) (snd (run_state f l)))"

declare transform_from.simps [code]

definition transform :: "Lexer \<Rightarrow> Lexer option" where
  "transform l = transform_from (Some ExpectAny) l"

text \<open>
  A scanning session is the \<^verbatim>\<open>Lexer\<close> together with the variable \<open>state\<close> of the
  driver that \<^verbatim>\<open>NewLexer\<close> started on it: \<open>Some f\<close> when the driver is about to call
  \<open>f\<close>, \<open>None\<close> when it has left its loop and closed the channel.
\<close>

type_synonym Session = "State option \<times> Lexer"

definition NewLexer :: "string \<Rightarrow> string \<Rightarrow> Session" where
  "NewLexer nm inp =
    (Some ExpectAny, \<lparr>name = nm, input = inp, start = 0, pos = 0, tokens = []\<rparr>)"

text \<open>
  What \<^verbatim>\<open>Tokenize\<close> returns for the token it received: the token and the error
  (\<open>None\<close> for \<^verbatim>\<open>nil\<close>, otherwise the text given to \<^verbatim>\<open>errors.New\<close>).
\<close>

definition Tokenize_result :: "Token \<Rightarrow> Token \<times> string option" where
  "Tokenize_result tok =
    (if Type tok = Error then (tok, Some ''Error'')
     else if Type tok = EOF then (tok, Some ''EOF'')
     else (tok, None))"

text \<open>
  \<^verbatim>\<open>Tokenize\<close>: the receive \<^verbatim>\<open>t := <-l.tokens\<close> takes the oldest token sent; when
  there is none it waits for the driver, which runs its next state function; on the
  closed channel it returns the zero value at once. The result is the pair returned and
  the session afterwards, or \<open>None\<close> when the receive blocks forever.
\<close>

partial_function (option) Tokenize ::
    "State option \<Rightarrow> Lexer \<Rightarrow> ((Token \<times> string option) \<times> Session) option" where
  "Tokenize state l =
    (case tokens l of
       tok # q \<Rightarrow> Some (Tokenize_result tok, (state, l\<lparr>tokens := q\<rparr>))
     | [] \<Rightarrow>
        (case state of
           None \<Rightarrow> Some (Tokenize_result zero_Token, (None, l))
         | Some f \<Rightarrow> Tokenize (fst (run_state f l)) (snd (run_state f l))))"

declare Tokenize.simps [code]

text \<open>
  \<^verbatim>\<open>getAllTokens\<close> of lex_test.go: call \<^verbatim>\<open>Tokenize\<close> until it returns an error, and
  collect every token returned, the last one included. \<open>None\<close> when a call blocks
  forever.
\<close>

partial_function (option) getAllTokens_loop ::
    "Token list \<Rightarrow> State option \<Rightarrow> Lexer \<Rightarrow> Token list option" where
  "getAllTokens_loop toks state l =
    (case Tokenize state l of
       None \<Rightarrow> None
     | Some r \<Rightarrow>
        (if snd (fst r) \<noteq> None then Some (toks @ [fst (fst r)])
         else getAllTokens_loop (toks @ [fst (fst r)]) (fst (snd r)) (snd (snd r))))"

declare getAllTokens_loop.simps [code]

definition getAllTokens :: "Session \<Rightarrow> Token list option" where
  "getAllTokens s = getAllTokens_loop [] (fst s) (snd s)"

text \<open>A caller that calls \<^verbatim>\<open>Tokenize\<close> \<open>n\<close> times in a row: the results, in order.\<close>

fun Tokenize_times :: "nat \<Rightarrow> Session \<Rightarrow> ((Token \<times> string option) list \<times> Session) option" where
  "Tokenize_times 0 s = Some ([], s)"
| "Tokenize_times (Suc n) s =
    (case Tokenize (fst s) (snd s) of
       None \<Rightarrow> None
     | Some r \<Rightarrow>
        (case Tokenize_times n (snd r) of
           None \<Rightarrow> None
         | Some rs \<Rightarrow> Some (fst r # fst rs, snd rs)))"

text \<open>One turn of the driver's loop, \<^verbatim>\<open>state = state(l)\<close>; nothing once the loop is left.\<close>

fun step :: "Session \<Rightarrow> Session" where
  "step (None, l) = (None, l)"
| "step (Some f, l) = run_state f l"

section \<open>Worked examples: the example of the README and of the test\<close>

text \<open>
  Claim C1. For the input \<^verbatim>\<open>select * from `table` where `a` = xyz\<close>, under any session
  name, eight successive calls of \<^verbatim>\<open>Tokenize\<close> return, in this order, Select
  "select", Star "*", From "from", a Literal-kind token "`table`", Where "where", a
  Literal-kind token "`a`", Op "=", each with a nil error, and then an Error token with
  the error "Error". After that the driver has left its loop and nothing is pending:
  no further token is produced. \<^verbatim>\<open>getAllTokens\<close> of the test collects the same eight
  tokens, and they are all the driver sends before it closes the channel.
\<close>

theorem C1_end_to_end:
  "\<exists>msg s'.
     Tokenize_times 8 (NewLexer nm ''select * from `table` where `a` = xyz'') =
       Some ([(Token Select ''select'', None), (Token Star ''*'', None),
              (Token From ''from'', None), (Token Literal ''`table`'', None),
              (Token Where ''where'', None), (Token Literal ''`a`'', None),
              (Token Op ''='', None), (Token Error msg, Some ''Error'')], s')
     \<and> fst s' = None \<and> tokens (snd s') = []
     \<and> getAllTokens (NewLexer nm ''select * from `table` where `a` = xyz'') =
       Some [Token Select ''select'', Token Star ''*'', Token From ''from'',
             Token Literal ''`table`'', Token Where ''where'', Token Literal ''`a`'',
             Token Op ''='', Token Error msg]
     \<and> map_option tokens (transform (snd (NewLexer nm ''select * from `table` where `a` = xyz''))) =
       Some [Token Select ''select'', Token Star ''*'', Token From ''from'',
             Token Literal ''`table`'', Token Where ''where'', Token Literal ''`a`'',
             Token Op ''='', Token Error msg]"
proof -
  let ?q = "''select * from `table` where `a` = xyz''"
  let ?msg = "Sprintf (Sprintf ''ERROR: %s: %s'' [nm, ''keyword doesn'' @ [CHR 0x27] @ ''t exsit: %s'']) [''xyz'']"
  let ?s' = "(None :: State option, \<lparr>name = nm, input = ?q, start = 34, pos = 37, tokens = []\<rparr>)"
  have 1: "Tokenize_times 8 (NewLexer nm ?q) =
       Some ([(Token Select ''select'', None), (Token Star ''*'', None),
              (Token From ''from'', None), (Token Literal ''`table`'', None),
              (Token Where ''where'', None), (Token Literal ''`a`'', None),
              (Token Op ''='', None), (Token Error ?msg, Some ''Error'')], ?s')"
    by code_simp
  have 2: "getAllTokens (NewLexer nm ?q) =
       Some [Token Select ''select'', Token Star ''*'', Token From ''from'',
             Token Literal ''`table`'', Token Where ''where'', Token Literal ''`a`'',
             Token Op ''='', Token Error ?msg]"
    by code_simp
  have 3: "map_option tokens (transform (snd (NewLexer nm ?q))) =
       Some [Token Select ''select'', Token Star ''*'', Token From ''from'',
             Token Literal ''`table`'', Token Where ''where'', Token Literal ''`a`'',
             Token Op ''='', Token Error ?msg]"
    by code_simp
  show ?thesis
    apply (rule exI [of _ ?msg])
    apply (rule exI [of _ ?s'])
    using 1 2 3 by simp
qed

end
